theory Spec2Isabelle
  imports Complex_Main "HOL-Library.Word"
begin

unbundle bit_operations_syntax

section \<open>The GP22 driver: shadow Register File and status word\<close>

text \<open>
  The embedding follows the dual-channel driver (the variant with the \<open>Channel\<close> enum,
  \<open>readStatus\<close> storing into \<open>_status\<close>, and \<open>setMeasurementMode\<close>). A \<open>uint8_t\<close> is an
  \<open>8 word\<close>, a \<open>uint16_t\<close> a \<open>16 word\<close>, a \<open>uint32_t\<close> a \<open>32 word\<close>; an \<open>int8_t\<close> is an
  \<open>8 word\<close> read through \<open>sint\<close>. Every setter takes the object state and returns the
  updated one. The SPI transport is outside the embedding: a value that comes back from
  the bus is an argument of the function that reads it. The record \<open>gp22\<close> holds
  \<open>_status\<close> and \<open>_config\<close>, and the setters are defined on it; the cached \<open>float\<close>
  \<open>_conversionFactor\<close>, which only the constructor and \<open>setClkPreDiv\<close> write through
  \<open>updateConversionFactor\<close>, is added by the record \<open>gp22_object\<close> further down. The pin
  number \<open>_ssPin\<close> is not modelled.
\<close>

datatype Channel = CH1 | CH2

record ALUInstruction =
  id :: int
  hit1Op :: "8 word"
  hit2Op :: "8 word"

record gp22 =
  status :: "16 word"
  config :: "nat \<Rightarrow> nat \<Rightarrow> 8 word"

text \<open>The assignment \<open>_config[i][j] = v\<close>.\<close>

definition config_write :: "nat \<Rightarrow> nat \<Rightarrow> 8 word \<Rightarrow> gp22 \<Rightarrow> gp22" where
  "config_write i j v s = s\<lparr>config := (config s)(i := (config s i)(j := v))\<rparr>"

text \<open>The initialiser of \<open>_config\<close> in the class declaration (7 registers of 4 bytes).\<close>

definition config_default :: "nat \<Rightarrow> nat \<Rightarrow> 8 word" where
  "config_default i j =
     (if i < 7 \<and> j < 4 then
        [[0xF3, 0x07, 0x68, 0x00],
         [0x21, 0x42, 0x00, 0x00],
         [0x20, 0x00, 0x00, 0x00],
         [0x20, 0x00, 0x00, 0x00],
         [0x20, 0x00, 0x00, 0x00],
         [0x40, 0x00, 0x00, 0x00],
         [0x40, 0x20, 0x60, 0x00]] ! i ! j
      else 0)"

text \<open>
  The constructor leaves \<open>_status\<close> uninitialised; its indeterminate content is the
  argument \<open>st\<close>.
\<close>

definition GP22 :: "16 word \<Rightarrow> gp22" where
  "GP22 st = \<lparr>status = st, config = config_default\<rparr>"

subsection \<open>The Arduino bit macros\<close>

text \<open>
  Modelled from the spec: the macros \<open>bitSet\<close>, \<open>bitClear\<close> and \<open>bitWrite\<close> come from the
  Arduino core headers, which are not among the sources. The spec describes the setters
  as setting or clearing exactly the named bit and never disturbing adjacent bits; the
  definitions are the macros' usual expansions, \<open>v |= (1UL << b)\<close>,
  \<open>v &= ~(1UL << b)\<close> and \<open>bitvalue ? bitSet(v, b) : bitClear(v, b)\<close>, on a byte. The
  binary constants \<open>B00001000\<close>, ... of the same headers are written as hexadecimal
  numerals.
\<close>

definition bitSet :: "8 word \<Rightarrow> nat \<Rightarrow> 8 word" where
  "bitSet v b = v OR push_bit b 1"

definition bitClear :: "8 word \<Rightarrow> nat \<Rightarrow> 8 word" where
  "bitClear v b = v AND NOT (push_bit b 1)"

definition bitWrite :: "8 word \<Rightarrow> nat \<Rightarrow> 8 word \<Rightarrow> 8 word" where
  "bitWrite v b bitvalue = (if bitvalue \<noteq> 0 then bitSet v b else bitClear v b)"

subsection \<open>Status decoding\<close>

text \<open>\<open>readStatus\<close> stores the 16-bit answer \<open>w\<close> of \<open>transfer2B(0xB4, 0, 0)\<close>.\<close>

definition readStatus :: "16 word \<Rightarrow> gp22 \<Rightarrow> gp22" where
  "readStatus w s = s\<lparr>status := w\<rparr>"

definition timedOut :: "gp22 \<Rightarrow> bool" where
  "timedOut s = (0 < (status s AND 0x0600))"

fun getMeasuredHits :: "Channel \<Rightarrow> gp22 \<Rightarrow> 8 word" where
  "getMeasuredHits CH1 s = ucast (drop_bit 3 (status s AND 0x0038))"
| "getMeasuredHits CH2 s = ucast (drop_bit 6 (status s AND 0x01C0))"

definition getReadPointer :: "gp22 \<Rightarrow> 8 word" where
  "getReadPointer s = ucast (status s AND 0x0007)"

subsection \<open>Export of the Register File\<close>

definition getConfig :: "gp22 \<Rightarrow> nat \<Rightarrow> 32 word" where
  "getConfig s i =
     push_bit 24 (ucast (config s i 0)) + push_bit 16 (ucast (config s i 1))
       + push_bit 8 (ucast (config s i 2)) + ucast (config s i 3)"

subsection \<open>Resolution mode\<close>

definition setSingleRes :: "gp22 \<Rightarrow> gp22" where
  "setSingleRes s =
     (let configPiece = config s 6 2;
          configPiece = bitClear configPiece 4;
          configPiece = bitClear configPiece 5
      in config_write 6 2 configPiece s)"

definition setDoubleRes :: "gp22 \<Rightarrow> gp22" where
  "setDoubleRes s =
     (let configPiece = config s 6 2;
          configPiece = bitSet configPiece 4;
          configPiece = bitClear configPiece 5
      in config_write 6 2 configPiece s)"

definition isDoubleRes :: "gp22 \<Rightarrow> bool" where
  "isDoubleRes s = (0 < (config s 6 2 AND 0x10))"

definition isQuadRes :: "gp22 \<Rightarrow> bool" where
  "isQuadRes s = (0 < (config s 6 2 AND 0x20))"

definition isSingleRes :: "gp22 \<Rightarrow> bool" where
  "isSingleRes s = (\<not> isDoubleRes s \<and> \<not> isQuadRes s)"

subsection \<open>Measurement mode\<close>

text \<open>The \<open>bool\<close> result of the comparison is converted to the \<open>uint8_t\<close> return type.\<close>

definition getMeasurementMode :: "gp22 \<Rightarrow> 8 word" where
  "getMeasurementMode s = (if 0 < (config s 0 2 AND 0x08) then 1 else 0)"

definition setQuadRes :: "gp22 \<Rightarrow> gp22" where
  "setQuadRes s =
     (if getMeasurementMode s = 2 then
        (let configPiece = config s 6 2;
             configPiece = bitSet configPiece 5;
             configPiece = bitClear configPiece 4
         in config_write 6 2 configPiece s)
      else s)"

text \<open>
  \<open>configPiece\<close> is read before the resolution is touched and written back last;
  \<open>setDoubleRes\<close> works on another byte of the Register File.
\<close>

definition setMeasurementMode :: "8 word \<Rightarrow> gp22 \<Rightarrow> gp22" where
  "setMeasurementMode mode s =
     (let configPiece = config s 0 2 in
      if mode = 1 then
        (let configPiece = bitClear configPiece 3;
             s = (if isQuadRes s then setDoubleRes s else s)
         in config_write 0 2 configPiece s)
      else if mode = 2 then
        (let configPiece = bitSet configPiece 3
         in config_write 0 2 configPiece s)
      else config_write 0 2 configPiece s)"

subsection \<open>Clock pre-divider\<close>

text \<open>
  The effect of \<open>setClkPreDiv\<close> on the Register File. Its last statement,
  \<open>updateConversionFactor()\<close>, writes the cached factor only and is added in
  \<open>setClkPreDiv_object\<close>.
\<close>

definition setClkPreDiv :: "8 word \<Rightarrow> gp22 \<Rightarrow> gp22" where
  "setClkPreDiv div' s =
     (let configPiece = config s 0 1;
          configPiece =
            (if div' = 1 \<or> div' = 2 \<or> div' = 4 then
               (let configPiece = bitClear configPiece 4;
                    configPiece = bitClear configPiece 5
                in if div' = 2 then bitSet configPiece 4
                   else if div' = 4 then bitSet configPiece 5
                   else configPiece)
             else configPiece)
      in config_write 0 1 configPiece s)"


subsection \<open>Expected hits per channel\<close>

definition setExpectedHits :: "Channel \<Rightarrow> 8 word \<Rightarrow> gp22 \<Rightarrow> gp22" where
  "setExpectedHits channel hits s =
     (let configPiece = config s 1 1;
          configPiece =
            (if 0 \<le> hits \<and> hits \<le> 4 then
               (case channel of
                  CH1 \<Rightarrow>
                    (let configPiece = bitClear configPiece 0;
                         configPiece = bitClear configPiece 1;
                         configPiece = bitClear configPiece 2
                     in configPiece + hits)
                | CH2 \<Rightarrow>
                    (let configPiece = bitClear configPiece 3;
                         configPiece = bitClear configPiece 4;
                         configPiece = bitClear configPiece 5
                     in configPiece + push_bit 3 hits))
             else configPiece)
      in config_write 1 1 configPiece s)"

fun getExpectedHits :: "Channel \<Rightarrow> gp22 \<Rightarrow> 8 word" where
  "getExpectedHits CH1 s = config s 1 1 AND 0x07"
| "getExpectedHits CH2 s = drop_bit 3 (config s 1 1 AND 0x38)"

subsection \<open>ALU operators\<close>

definition defineHit1Op :: "8 word \<Rightarrow> gp22 \<Rightarrow> gp22" where
  "defineHit1Op op s =
     (let configPiece = config s 1 0;
          configPiece = foldl (\<lambda>p i. bitWrite p i 0) configPiece [0..<4];
          configPiece = configPiece + op
      in config_write 1 0 configPiece s)"

definition defineHit2Op :: "8 word \<Rightarrow> gp22 \<Rightarrow> gp22" where
  "defineHit2Op op s =
     (let configPiece = config s 1 0;
          configPiece = foldl (\<lambda>p i. bitWrite p i 0) configPiece [4..<8];
          configPiece = configPiece + push_bit 4 op
      in config_write 1 0 configPiece s)"

definition getHit1Op :: "gp22 \<Rightarrow> 8 word" where
  "getHit1Op s = config s 1 0 AND 0x0F"

definition getHit2Op :: "gp22 \<Rightarrow> 8 word" where
  "getHit2Op s = drop_bit 4 (config s 1 0 AND 0xF0)"

text \<open>The effect on the object; the transfer of register 1 goes to the bus.\<close>

definition updateALUInstruction :: "ALUInstruction \<Rightarrow> gp22 \<Rightarrow> gp22" where
  "updateALUInstruction instruction s =
     defineHit2Op (hit2Op instruction) (defineHit1Op (hit1Op instruction) s)"

subsection \<open>Edge sensitivity\<close>

definition setEdgeSensitivity :: "8 word \<Rightarrow> 8 word \<Rightarrow> 8 word \<Rightarrow> gp22 \<Rightarrow> gp22" where
  "setEdgeSensitivity start stop1 stop2 s =
     (let reg0p2 = config s 0 2;
          reg2p0 = config s 2 0;
          reg0p2 = (if start = 0 \<or> start = 1 then bitWrite reg0p2 0 start else reg0p2);
          (reg0p2, reg2p0) =
            (if stop1 = 0 \<or> stop1 = 1 then (bitWrite reg0p2 1 stop1, reg2p0)
             else if stop1 = 2 then (bitClear reg0p2 1, bitSet reg2p0 3)
             else (reg0p2, reg2p0));
          (reg0p2, reg2p0) =
            (if stop2 = 0 \<or> stop2 = 1 then (bitWrite reg0p2 2 stop2, reg2p0)
             else if stop2 = 2 then (bitClear reg0p2 2, bitSet reg2p0 4)
             else (reg0p2, reg2p0))
      in config_write 2 0 reg2p0 (config_write 0 2 reg0p2 s))"

subsection \<open>Auto calculation and first-wave mode\<close>

definition setAutoCalcOn :: "bool \<Rightarrow> gp22 \<Rightarrow> gp22" where
  "setAutoCalcOn on s =
     (let configPiece = config s 3 0;
          configPiece = (if on then bitSet configPiece 7 else bitClear configPiece 7)
      in config_write 3 0 configPiece s)"

definition isAutoCalcOn :: "gp22 \<Rightarrow> bool" where
  "isAutoCalcOn s = (0 < (config s 3 0 AND 0x80))"

definition setFirstWaveMode :: "bool \<Rightarrow> gp22 \<Rightarrow> gp22" where
  "setFirstWaveMode on s =
     (let configPiece = config s 3 0;
          configPiece = bitSet configPiece 6
      in config_write 3 0 configPiece s)"

definition isFirstWaveMode :: "gp22 \<Rightarrow> bool" where
  "isFirstWaveMode s = (0 < (config s 3 0 AND 0x40))"

subsection \<open>First-wave delays\<close>

text \<open>
  The union \<open>FourByte\<close> is a 32-bit word seen also as two 16-bit halves and four bytes;
  on the little-endian targets of the driver \<open>bit8[k]\<close> is bits \<open>8k .. 8k+7\<close> and
  \<open>bit16[k]\<close> is bits \<open>16k .. 16k+15\<close> of \<open>bit32\<close>.
\<close>

type_synonym FourByte = "32 word"

definition bit8 :: "FourByte \<Rightarrow> nat \<Rightarrow> 8 word" where
  "bit8 d k = ucast (drop_bit (8 * k) d)"

definition bit8_write :: "FourByte \<Rightarrow> nat \<Rightarrow> 8 word \<Rightarrow> FourByte" where
  "bit8_write d k v = (d AND NOT (push_bit (8 * k) 0xFF)) OR push_bit (8 * k) (ucast v)"

definition bit16 :: "FourByte \<Rightarrow> nat \<Rightarrow> 16 word" where
  "bit16 d k = ucast (drop_bit (16 * k) d)"

definition bit16_write :: "FourByte \<Rightarrow> nat \<Rightarrow> 16 word \<Rightarrow> FourByte" where
  "bit16_write d k v = (d AND NOT (push_bit (16 * k) 0xFFFF)) OR push_bit (16 * k) (ucast v)"

text \<open>The value of the local variable \<open>configPiece\<close> at the end of \<open>setFirstWaveDelays\<close>.\<close>

definition setFirstWaveDelays_configPiece ::
    "8 word \<Rightarrow> 8 word \<Rightarrow> 8 word \<Rightarrow> gp22 \<Rightarrow> FourByte" where
  "setFirstWaveDelays_configPiece stop1 stop2 stop3 s =
     (let configPiece = (0 :: FourByte);
          configPiece = bit8_write configPiece 3 (config s 3 0);
          configPiece = bit8_write configPiece 2 (config s 3 1);
          configPiece = bit8_write configPiece 1 (config s 3 2);
          configPiece = bit8_write configPiece 0 (config s 3 3);
          topBytes = bit16 configPiece 1;
          topBytes = topBytes XOR (topBytes AND 0x03F0);
          topBytes = topBytes + push_bit 4 (ucast stop3);
          configPiece = bit16_write configPiece 1 topBytes;
          middleBytes = push_bit 8 (ucast (bit8 configPiece 2)) + ucast (bit8 configPiece 1);
          middleBytes = middleBytes XOR (middleBytes AND 0x0FC0);
          middleBytes = middleBytes + push_bit 6 (ucast stop2);
          configPiece = bit8_write configPiece 1 (ucast (middleBytes :: 16 word));
          configPiece = bit8_write configPiece 2 (ucast (drop_bit 8 middleBytes));
          byte1 = bit8 configPiece 1;
          byte1 = byte1 XOR (byte1 AND 0x3F);
          byte1 = byte1 + stop1;
          configPiece = bit8_write configPiece 1 byte1
      in configPiece)"

text \<open>
  The function ends after the last assignment to the local union: no statement copies
  \<open>configPiece\<close> back into \<open>_config\<close>.
\<close>

definition setFirstWaveDelays :: "8 word \<Rightarrow> 8 word \<Rightarrow> 8 word \<Rightarrow> gp22 \<Rightarrow> gp22" where
  "setFirstWaveDelays stop1 stop2 stop3 s =
     (let configPiece = setFirstWaveDelays_configPiece stop1 stop2 stop3 s in s)"

text \<open>Bits \<open>lo .. lo+5\<close> of register \<open>i\<close> as exported by \<open>getConfig\<close>.\<close>

definition delay_field :: "gp22 \<Rightarrow> nat \<Rightarrow> 32 word" where
  "delay_field s lo = drop_bit lo (getConfig s 3) AND 0x3F"

subsection \<open>Pulse width and first-wave edge\<close>

definition setPulseWidthMeasOn :: "bool \<Rightarrow> gp22 \<Rightarrow> gp22" where
  "setPulseWidthMeasOn on s =
     (let configPiece = config s 4 1;
          configPiece = (if on then bitClear configPiece 0 else bitSet configPiece 0)
      in config_write 4 1 configPiece s)"

definition isPulseWidthMeasOn :: "gp22 \<Rightarrow> bool" where
  "isPulseWidthMeasOn s = (config s 4 1 AND 0x01 = 0)"

definition setFirstWaveRisingEdge :: "bool \<Rightarrow> gp22 \<Rightarrow> gp22" where
  "setFirstWaveRisingEdge on s =
     (let configPiece = config s 4 2;
          configPiece = (if on then bitClear configPiece 7 else bitSet configPiece 7)
      in config_write 4 2 configPiece s)"

definition isFirstWaveRisingEdge :: "gp22 \<Rightarrow> bool" where
  "isFirstWaveRisingEdge s = (0 < (config s 4 2 AND 0x80))"

subsection \<open>First-wave offset\<close>

text \<open>
  The parameter \<open>offset\<close> is an \<open>int8_t\<close>: comparisons read it through \<open>sint\<close>, and
  \<open>offset -= 20\<close>, \<open>configPiece += offset\<close> wrap to eight bits.
\<close>

definition setFirstWaveOffset :: "8 word \<Rightarrow> gp22 \<Rightarrow> gp22" where
  "setFirstWaveOffset offset s =
     (let configPiece = config s 4 2;
          (offset, configPiece) =
            (if 15 < sint offset then
               (offset - 20, bitClear (bitSet configPiece 6) 5)
             else if sint offset < - 16 then
               (offset + 20, bitClear (bitSet configPiece 5) 6)
             else
               (offset, bitClear (bitClear configPiece 5) 6));
          configPiece = configPiece XOR (configPiece AND 0x1F);
          configPiece =
            (if 0 < sint offset \<and> sint offset \<le> 15 then configPiece + offset
             else if sint offset < 0 \<and> - 16 \<le> sint offset then
               (let twosComp = (31 :: 8 word);
                    twosComp = twosComp + (offset + 1)
                in configPiece + twosComp)
             else configPiece)
      in config_write 4 2 configPiece s)"

text \<open>
  In \<open>-1 * ((~twosComp) + 1)\<close> the \<open>uint8_t\<close> operand is promoted to \<open>int\<close> before the
  complement, so \<open>~\<close> is the complement of an \<open>int\<close>; the product is converted to
  \<open>int8_t\<close> by the assignment.
\<close>

definition getFirstWaveOffset :: "gp22 \<Rightarrow> 8 word" where
  "getFirstWaveOffset s =
     (let configPiece = config s 4 2;
          twosComp = configPiece AND 0x1F;
          offset = (if 15 < twosComp
                    then (word_of_int (- 1 * (NOT (uint twosComp) + 1)) :: 8 word)
                    else twosComp);
          offset = (if 0 < (configPiece AND 0x20) then offset - 20
                    else if 0 < (configPiece AND 0x40) then offset + 20
                    else offset)
      in offset)"

subsection \<open>States reachable through the public interface\<close>

inductive reachable :: "gp22 \<Rightarrow> bool" where
  r_init: "reachable (GP22 st)"
| r_readStatus: "reachable s \<Longrightarrow> reachable (readStatus w s)"
| r_setExpectedHits: "reachable s \<Longrightarrow> reachable (setExpectedHits channel hits s)"
| r_setSingleRes: "reachable s \<Longrightarrow> reachable (setSingleRes s)"
| r_setDoubleRes: "reachable s \<Longrightarrow> reachable (setDoubleRes s)"
| r_setQuadRes: "reachable s \<Longrightarrow> reachable (setQuadRes s)"
| r_setMeasurementMode: "reachable s \<Longrightarrow> reachable (setMeasurementMode mode s)"
| r_setClkPreDiv: "reachable s \<Longrightarrow> reachable (setClkPreDiv d s)"
| r_setAutoCalcOn: "reachable s \<Longrightarrow> reachable (setAutoCalcOn on s)"
| r_defineHit1Op: "reachable s \<Longrightarrow> reachable (defineHit1Op op s)"
| r_defineHit2Op: "reachable s \<Longrightarrow> reachable (defineHit2Op op s)"
| r_updateALUInstruction: "reachable s \<Longrightarrow> reachable (updateALUInstruction instruction s)"
| r_setEdgeSensitivity: "reachable s \<Longrightarrow> reachable (setEdgeSensitivity start stop1 stop2 s)"
| r_setFirstWaveMode: "reachable s \<Longrightarrow> reachable (setFirstWaveMode on s)"
| r_setFirstWaveDelays: "reachable s \<Longrightarrow> reachable (setFirstWaveDelays stop1 stop2 stop3 s)"
| r_setPulseWidthMeasOn: "reachable s \<Longrightarrow> reachable (setPulseWidthMeasOn on s)"
| r_setFirstWaveRisingEdge: "reachable s \<Longrightarrow> reachable (setFirstWaveRisingEdge on s)"
| r_setFirstWaveOffset: "reachable s \<Longrightarrow> reachable (setFirstWaveOffset offset s)"


text \<open>Exactly one of three flags holds.\<close>

definition exactly_one :: "bool \<Rightarrow> bool \<Rightarrow> bool \<Rightarrow> bool" where
  "exactly_one a b c =
     ((a \<and> \<not> b \<and> \<not> c) \<or> (\<not> a \<and> b \<and> \<not> c) \<or> (\<not> a \<and> \<not> b \<and> c))"

section \<open>The conversion factor\<close>

subsection \<open>Binary floating-point rounding\<close>




subsection \<open>The object with its cached factor\<close>








section \<open>Bits of a byte\<close>

lemma bit_bitSet: "bit (bitSet v b) n \<longleftrightarrow> bit v n \<or> (n = b \<and> b < 8)"
  by (auto simp: bitSet_def bit_simps)

lemma bit_bitClear: "bit (bitClear v b) n \<longleftrightarrow> bit v n \<and> n \<noteq> b"
  by (auto simp: bitClear_def bit_simps dest: bit_imp_le_length)

lemma test_bit: "0 < ((x :: 8 word) AND 2 ^ n) \<longleftrightarrow> bit x n"
  by (simp add: word_gt_0 and_exp_eq_0_iff_not_bit)

lemma byte_eqI:
  fixes a b :: "8 word"
  assumes "bit a 0 = bit b 0" "bit a 1 = bit b 1" "bit a 2 = bit b 2" "bit a 3 = bit b 3"
    "bit a 4 = bit b 4" "bit a 5 = bit b 5" "bit a 6 = bit b 6" "bit a 7 = bit b 7"
  shows "a = b"
proof (rule bit_word_eqI)
  fix k assume "k < LENGTH(8)"
  then have "k \<in> {0, 1, 2, 3, 4, 5, 6, 7}"
    by simp arith
  with assms show "bit a k = bit b k" by auto
qed

section \<open>Reading and writing the Register File\<close>

lemma config_config_write:
  "config (config_write i j v s) i' j' = (if i' = i \<and> j' = j then v else config s i' j')"
  by (simp add: config_write_def)

lemma config_write_same: "config_write i j (config s i j) s = s"
  by (simp add: config_write_def)

lemma config_GP22: "config (GP22 st) 6 2 = 0x60"
  by (simp add: GP22_def config_default_def)

section \<open>Resolution mode and measurement mode\<close>

lemma isDoubleRes_bit: "isDoubleRes s \<longleftrightarrow> bit (config s 6 2) 4"
  using test_bit [of "config s 6 2" 4] by (simp add: isDoubleRes_def)

lemma isQuadRes_bit: "isQuadRes s \<longleftrightarrow> bit (config s 6 2) 5"
  using test_bit [of "config s 6 2" 5] by (simp add: isQuadRes_def)

lemma config_setSingleRes:
  "config (setSingleRes s) 6 2 = bitClear (bitClear (config s 6 2) 4) 5"
  by (simp add: setSingleRes_def Let_def config_config_write)

lemma config_setDoubleRes:
  "config (setDoubleRes s) 6 2 = bitClear (bitSet (config s 6 2) 4) 5"
  by (simp add: setDoubleRes_def Let_def config_config_write)

text \<open>\<open>getMeasurementMode\<close> yields 0 or 1, so the guard of \<open>setQuadRes\<close> is false.\<close>

lemma setQuadRes_noop: "setQuadRes s = s"
  by (simp add: setQuadRes_def getMeasurementMode_def)

lemma config_setMeasurementMode:
  "config (setMeasurementMode mode s) 6 2 =
     (if mode = 1 \<and> isQuadRes s then config (setDoubleRes s) 6 2 else config s 6 2)"
  by (simp add: setMeasurementMode_def Let_def config_config_write)

lemma setFirstWaveDelays_noop: "setFirstWaveDelays stop1 stop2 stop3 s = s"
  by (simp add: setFirstWaveDelays_def)

text \<open>Every other operation leaves byte 2 of register 6 alone.\<close>

lemma res_frame:
  "config (readStatus w s) 6 2 = config s 6 2"
  "config (setExpectedHits channel hits s) 6 2 = config s 6 2"
  "config (setClkPreDiv d s) 6 2 = config s 6 2"
  "config (setAutoCalcOn on s) 6 2 = config s 6 2"
  "config (defineHit1Op op s) 6 2 = config s 6 2"
  "config (defineHit2Op op s) 6 2 = config s 6 2"
  "config (updateALUInstruction instruction s) 6 2 = config s 6 2"
  "config (setEdgeSensitivity start stop1 stop2 s) 6 2 = config s 6 2"
  "config (setFirstWaveMode on s) 6 2 = config s 6 2"
  "config (setPulseWidthMeasOn on s) 6 2 = config s 6 2"
  "config (setFirstWaveRisingEdge on s) 6 2 = config s 6 2"
  "config (setFirstWaveOffset offset s) 6 2 = config s 6 2"
  by (simp_all add: readStatus_def setExpectedHits_def setClkPreDiv_def setAutoCalcOn_def
      defineHit1Op_def defineHit2Op_def updateALUInstruction_def setEdgeSensitivity_def
      setFirstWaveMode_def setPulseWidthMeasOn_def setFirstWaveRisingEdge_def
      setFirstWaveOffset_def Let_def split_def config_config_write)

text \<open>
  The double and the quad bit are never set together: the default has the quad bit only,
  and each setter that sets one of the two bits clears the other.
\<close>

lemma reachable_res:
  "reachable s \<Longrightarrow> \<not> (bit (config s 6 2) 4 \<and> bit (config s 6 2) 5)"
proof (induction rule: reachable.induct)
  case (r_init st)
  show ?case by (simp add: config_GP22)
next
  case (r_setSingleRes s)
  show ?case by (simp add: config_setSingleRes bit_bitClear)
next
  case (r_setDoubleRes s)
  show ?case by (simp add: config_setDoubleRes bit_bitClear)
next
  case (r_setMeasurementMode s mode)
  then show ?case
    by (simp add: config_setMeasurementMode config_setDoubleRes bit_bitClear)
qed (simp_all add: res_frame setQuadRes_noop setFirstWaveDelays_noop)

text \<open>
  Claim C3. In every state reachable from the default through the public operations,
  exactly one of \<open>isSingleRes\<close>, \<open>isDoubleRes\<close>, \<open>isQuadRes\<close> is true; \<open>setSingleRes\<close>
  clears the double and the quad bit; and \<open>setQuadRes\<close> followed by \<open>setDoubleRes\<close> leaves
  double resolution active and quad resolution inactive.
\<close>

theorem resolution_exclusive:
  assumes "reachable s"
  shows "exactly_one (isSingleRes s) (isDoubleRes s) (isQuadRes s) \<and>
         \<not> isDoubleRes (setSingleRes s) \<and> \<not> isQuadRes (setSingleRes s) \<and>
         isDoubleRes (setDoubleRes (setQuadRes s)) \<and>
         \<not> isQuadRes (setDoubleRes (setQuadRes s))"
  using reachable_res [OF assms]
  by (auto simp: exactly_one_def isSingleRes_def isDoubleRes_bit isQuadRes_bit
      config_setSingleRes config_setDoubleRes setQuadRes_noop bit_bitClear bit_bitSet)

theorem resolution_exclusive_witness:
  "reachable (setDoubleRes (GP22 0)) \<and>
   exactly_one (isSingleRes (setDoubleRes (GP22 0))) (isDoubleRes (setDoubleRes (GP22 0)))
     (isQuadRes (setDoubleRes (GP22 0))) \<and>
   \<not> isDoubleRes (setSingleRes (setDoubleRes (GP22 0))) \<and>
   \<not> isQuadRes (setSingleRes (setDoubleRes (GP22 0))) \<and>
   isDoubleRes (setDoubleRes (setQuadRes (setDoubleRes (GP22 0)))) \<and>
   \<not> isQuadRes (setDoubleRes (setQuadRes (setDoubleRes (GP22 0))))"
proof -
  have r: "reachable (setDoubleRes (GP22 0))"
    by (rule r_setDoubleRes) (rule r_init)
  from resolution_exclusive [OF r] r show ?thesis by simp
qed

text \<open>
  Claim C4. In every state where \<open>isQuadRes\<close> is true, \<open>setMeasurementMode 1\<close> yields a
  state where \<open>isDoubleRes\<close> is true and \<open>isQuadRes\<close> is false.
\<close>

theorem modeswitch_downgrades_quad:
  "isQuadRes s \<Longrightarrow>
     isDoubleRes (setMeasurementMode 1 s) \<and> \<not> isQuadRes (setMeasurementMode 1 s)"
  by (simp add: isDoubleRes_bit isQuadRes_bit config_setMeasurementMode config_setDoubleRes
      bit_bitSet bit_bitClear)

theorem modeswitch_downgrades_quad_witness:
  "isQuadRes (GP22 0) \<and> isDoubleRes (setMeasurementMode 1 (GP22 0)) \<and>
   \<not> isQuadRes (setMeasurementMode 1 (GP22 0))"
proof -
  have q: "isQuadRes (GP22 0)"
    by (simp add: isQuadRes_def config_GP22)
  from modeswitch_downgrades_quad [OF q] q show ?thesis by simp
qed

text \<open>
  Claim C5. \<open>getMeasurementMode\<close> returns 0 or 1, never 2, so in every state (reachable
  or not) \<open>setQuadRes\<close> returns the state as it was: the Register File is unchanged and
  the quad bit is what it was before the call.
\<close>

theorem setQuadRes_never_fires:
  "(getMeasurementMode s = 0 \<or> getMeasurementMode s = 1) \<and> getMeasurementMode s \<noteq> 2 \<and>
   setQuadRes s = s \<and> isQuadRes (setQuadRes s) = isQuadRes s"
  by (simp add: setQuadRes_noop) (simp add: getMeasurementMode_def)

section \<open>Out-of-range arguments\<close>

text \<open>
  Claim C7. \<open>setExpectedHits\<close> with more than 4 hits and \<open>setClkPreDiv\<close> with a divider
  other than 1, 2 and 4 return the state unchanged: no bit of the Register File differs.
\<close>

theorem invalid_inputs_ignored:
  "(4 < hits \<longrightarrow> setExpectedHits channel hits s = s) \<and>
   (d \<noteq> 1 \<and> d \<noteq> 2 \<and> d \<noteq> 4 \<longrightarrow> setClkPreDiv d s = s)"
  by (simp add: setExpectedHits_def setClkPreDiv_def Let_def config_write_same)

theorem invalid_inputs_ignored_witness:
  "(4 :: 8 word) < 5 \<and> setExpectedHits CH2 5 (GP22 0) = GP22 0 \<and>
   (3 :: 8 word) \<noteq> 1 \<and> (3 :: 8 word) \<noteq> 2 \<and> (3 :: 8 word) \<noteq> 4 \<and>
   setClkPreDiv 3 (GP22 0) = GP22 0"
  using invalid_inputs_ignored [of 5 CH2 "GP22 0" 3] by simp

section \<open>Expected hits\<close>

lemma hits_cases:
  assumes "(h :: 8 word) \<le> 4"
  shows "h = 0 \<or> h = 1 \<or> h = 2 \<or> h = 3 \<or> h = 4"
proof -
  from assms have "unat h \<le> 4" by (simp add: word_le_nat_alt)
  then have "unat h = 0 \<or> unat h = 1 \<or> unat h = 2 \<or> unat h = 3 \<or> unat h = 4" by arith
  moreover have "h = word_of_nat (unat h)" by simp
  ultimately show ?thesis by (elim disjE) simp_all
qed

text \<open>The cleared field and the new count share no bit, so the addition carries nothing.\<close>

lemma ch1_disjoint:
  assumes "(h :: 8 word) \<le> 4"
  shows "bitClear (bitClear (bitClear x 0) 1) 2 AND h = 0"
  using hits_cases [OF assms]
  by (elim disjE; intro byte_eqI) (simp_all add: bit_and_iff bit_bitClear)

lemma ch1_field:
  assumes "(h :: 8 word) \<le> 4"
  shows "(bitClear (bitClear (bitClear x 0) 1) 2 + h) AND 0x07 = h"
    and "(bitClear (bitClear (bitClear x 0) 1) 2 + h) AND 0x38 = x AND 0x38"
  unfolding disjunctive_add_eq_or [OF ch1_disjoint [OF assms]]
  using hits_cases [OF assms]
  by (elim disjE; intro byte_eqI; simp add: bit_and_iff bit_or_iff bit_bitClear)+

lemma ch2_disjoint:
  assumes "(h :: 8 word) \<le> 4"
  shows "bitClear (bitClear (bitClear x 3) 4) 5 AND push_bit 3 h = 0"
  using hits_cases [OF assms]
  by (elim disjE; intro byte_eqI) (simp_all add: bit_and_iff bit_bitClear)

lemma ch2_field:
  assumes "(h :: 8 word) \<le> 4"
  shows "drop_bit 3 ((bitClear (bitClear (bitClear x 3) 4) 5 + push_bit 3 h) AND 0x38) = h"
    and "(bitClear (bitClear (bitClear x 3) 4) 5 + push_bit 3 h) AND 0x07 = x AND 0x07"
  unfolding disjunctive_add_eq_or [OF ch2_disjoint [OF assms]]
  using hits_cases [OF assms]
  by (elim disjE; intro byte_eqI;
      simp add: bit_and_iff bit_or_iff bit_bitClear bit_drop_bit_eq)+

lemma config_setExpectedHits_CH1:
  "hits \<le> 4 \<Longrightarrow> config (setExpectedHits CH1 hits s) 1 1 =
     bitClear (bitClear (bitClear (config s 1 1) 0) 1) 2 + hits"
  by (simp add: setExpectedHits_def Let_def config_config_write)

lemma config_setExpectedHits_CH2:
  "hits \<le> 4 \<Longrightarrow> config (setExpectedHits CH2 hits s) 1 1 =
     bitClear (bitClear (bitClear (config s 1 1) 3) 4) 5 + push_bit 3 hits"
  by (simp add: setExpectedHits_def Let_def config_config_write)

text \<open>
  Claim C8. For a hit count of at most 4, either channel and any state: after
  \<open>setExpectedHits channel hits\<close>, \<open>getExpectedHits channel\<close> returns \<open>hits\<close>, and
  \<open>getExpectedHits\<close> of the other channel returns what it returned before.
\<close>

theorem expectedHits_roundtrip:
  assumes h: "hits \<le> 4"
  shows "getExpectedHits channel (setExpectedHits channel hits s) = hits \<and>
     (\<forall>c. c \<noteq> channel \<longrightarrow>
        getExpectedHits c (setExpectedHits channel hits s) = getExpectedHits c s)"
proof (cases channel)
  case CH1
  have a: "getExpectedHits CH1 (setExpectedHits CH1 hits s) = hits"
    unfolding getExpectedHits.simps config_setExpectedHits_CH1 [OF h]
    by (rule ch1_field(1) [OF h])
  have b: "getExpectedHits CH2 (setExpectedHits CH1 hits s) = getExpectedHits CH2 s"
    unfolding getExpectedHits.simps config_setExpectedHits_CH1 [OF h]
    by (simp only: ch1_field(2) [OF h])
  have "c = CH2" if "c \<noteq> channel" for c
    using that CH1 by (cases c) simp_all
  with a b CH1 show ?thesis by blast
next
  case CH2
  have a: "getExpectedHits CH2 (setExpectedHits CH2 hits s) = hits"
    unfolding getExpectedHits.simps config_setExpectedHits_CH2 [OF h]
    by (rule ch2_field(1) [OF h])
  have b: "getExpectedHits CH1 (setExpectedHits CH2 hits s) = getExpectedHits CH1 s"
    unfolding getExpectedHits.simps config_setExpectedHits_CH2 [OF h]
    by (rule ch2_field(2) [OF h])
  have "c = CH1" if "c \<noteq> channel" for c
    using that CH2 by (cases c) simp_all
  with a b CH2 show ?thesis by blast
qed

theorem expectedHits_roundtrip_witness:
  "(3 :: 8 word) \<le> 4 \<and> getExpectedHits CH1 (setExpectedHits CH1 3 (GP22 0)) = 3 \<and>
   CH2 \<noteq> CH1 \<and>
   getExpectedHits CH2 (setExpectedHits CH1 3 (GP22 0)) = getExpectedHits CH2 (GP22 0)"
proof -
  have h: "(3 :: 8 word) \<le> 4" by simp
  have n: "CH2 \<noteq> CH1" by simp
  from expectedHits_roundtrip [OF h, of CH1 "GP22 0"] h n show ?thesis by blast
qed

section \<open>Status word\<close>

lemma and_le_bound: "unat ((w :: 16 word) AND m) \<le> unat m"
  by (simp add: word_and_le1 flip: word_le_nat_alt)

lemma unat_ucast_small: "unat (y :: 16 word) < 256 \<Longrightarrow> unat (ucast y :: 8 word) = unat y"
  by (simp add: unsigned_ucast_eq take_bit_nat_eq_self)

text \<open>
  Claim C9. For the status word \<open>w\<close> stored by \<open>readStatus\<close>: \<open>timedOut\<close> holds exactly
  when \<open>w AND 0x0600\<close> is not zero; \<open>getMeasuredHits CH1\<close> is \<open>(w AND 0x0038) >> 3\<close>,
  \<open>getMeasuredHits CH2\<close> is \<open>(w AND 0x01C0) >> 6\<close>, \<open>getReadPointer\<close> is \<open>w AND 0x0007\<close>
  (the conversion to \<open>uint8_t\<close> loses nothing), and each of the three is at most 7.
\<close>

theorem status_decode:
  "(timedOut (readStatus w s) \<longleftrightarrow> w AND 0x0600 \<noteq> 0) \<and>
   unat (getMeasuredHits CH1 (readStatus w s)) = unat (drop_bit 3 (w AND 0x0038)) \<and>
   unat (getMeasuredHits CH2 (readStatus w s)) = unat (drop_bit 6 (w AND 0x01C0)) \<and>
   unat (getReadPointer (readStatus w s)) = unat (w AND 0x0007) \<and>
   unat (getMeasuredHits CH1 (readStatus w s)) \<le> 7 \<and>
   unat (getMeasuredHits CH2 (readStatus w s)) \<le> 7 \<and>
   unat (getReadPointer (readStatus w s)) \<le> 7"
proof -
  have b1: "unat (drop_bit 3 (w AND 0x0038)) \<le> 7"
    using and_le_bound [of w "0x0038"] by (simp add: unat_div drop_bit_eq_div)
  have b2: "unat (drop_bit 6 (w AND 0x01C0)) \<le> 7"
    using and_le_bound [of w "0x01C0"] by (simp add: unat_div drop_bit_eq_div)
  have b3: "unat (w AND 0x0007) \<le> 7"
    using and_le_bound [of w "0x0007"] by simp
  have t: "timedOut (readStatus w s) \<longleftrightarrow> w AND 0x0600 \<noteq> 0"
    by (simp add: timedOut_def readStatus_def word_gt_0)
  have h1: "unat (getMeasuredHits CH1 (readStatus w s)) = unat (drop_bit 3 (w AND 0x0038))"
    using b1 unat_ucast_small [of "drop_bit 3 (w AND 0x0038)"] by (simp add: readStatus_def)
  have h2: "unat (getMeasuredHits CH2 (readStatus w s)) = unat (drop_bit 6 (w AND 0x01C0))"
    using b2 unat_ucast_small [of "drop_bit 6 (w AND 0x01C0)"] by (simp add: readStatus_def)
  have h3: "unat (getReadPointer (readStatus w s)) = unat (w AND 0x0007)"
    using b3 unat_ucast_small [of "w AND 0x0007"]
    by (simp add: readStatus_def getReadPointer_def)
  from t h1 h2 h3 b1 b2 b3 show ?thesis by simp
qed

section \<open>First-wave settings\<close>

lemma isFirstWaveMode_bit: "isFirstWaveMode s \<longleftrightarrow> bit (config s 3 0) 6"
  using test_bit [of "config s 3 0" 6] by (simp add: isFirstWaveMode_def)

text \<open>
  Claim C10. \<open>setFirstWaveMode\<close> sets bit 6 of byte 0 of register 3 whatever its
  argument: the results for \<open>True\<close> and \<open>False\<close> are the same state, and after
  \<open>setFirstWaveMode False\<close> the query \<open>isFirstWaveMode\<close> is true.
\<close>

theorem setFirstWaveMode_ignores_argument:
  "config (setFirstWaveMode on s) 3 0 = bitSet (config s 3 0) 6 \<and>
   bit (config (setFirstWaveMode on s) 3 0) 6 \<and>
   setFirstWaveMode False s = setFirstWaveMode True s \<and>
   isFirstWaveMode (setFirstWaveMode False s)"
  by (simp add: isFirstWaveMode_bit setFirstWaveMode_def Let_def config_config_write
      bit_bitSet)

text \<open>
  Claim C1 asks that \<open>getFirstWaveOffset\<close> after \<open>setFirstWaveOffset offset\<close> return
  \<open>offset\<close> for every offset from -36 to 35. At the offset -1 on the default state the
  setter stores 31 in the five-bit field with both range bits clear, and the getter
  returns 31: the complement is taken at the width of \<open>int\<close>, not at five bits, so
  \<open>-1 * ((~twosComp) + 1)\<close> is \<open>twosComp\<close> again.
\<close>

theorem firstWaveOffset_negative_not_restored:
  "config (setFirstWaveOffset (- 1) (GP22 0)) 4 2 = 31 \<and>
   sint (getFirstWaveOffset (setFirstWaveOffset (- 1) (GP22 0))) = 31"
  by (simp add: getFirstWaveOffset_def setFirstWaveOffset_def Let_def config_config_write
      GP22_def config_default_def bitClear_def bitSet_def)

text \<open>
  Claim C2 asks that \<open>setFirstWaveDelays stop1 stop2 stop3\<close> store the three delays in
  bits 8-13, 14-19 and 20-25 of register 3. The function works on a local copy only: on
  the default state with the delays 3, 4 and 5, register 3 is still \<open>0x20000000\<close>
  afterwards and the three fields read 0.
\<close>

theorem setFirstWaveDelays_not_stored:
  "getConfig (setFirstWaveDelays 3 4 5 (GP22 0)) 3 = 0x20000000 \<and>
   delay_field (setFirstWaveDelays 3 4 5 (GP22 0)) 8 = 0 \<and>
   delay_field (setFirstWaveDelays 3 4 5 (GP22 0)) 14 = 0 \<and>
   delay_field (setFirstWaveDelays 3 4 5 (GP22 0)) 20 = 0"
  by (simp add: setFirstWaveDelays_noop delay_field_def getConfig_def GP22_def
      config_default_def)

section \<open>Rounding to a binary floating-point format\<close>










section \<open>The value of the conversion factor\<close>














section \<open>The clock pre-divider and the factor\<close>






















end
